theory Spec2Isabelle
  imports Main
begin

section \<open>Python values: exceptions, paths, dictionaries\<close>

text \<open>
  The exceptions that \<^verbatim>\<open>ModelManager\<close> (modelmanager.py) can raise or let through.
  \<open>OSError\<close> and \<open>RequestException\<close> stand for whatever the operating system and the
  HTTP library report; \<open>PermissionError\<close> is kept apart because the code catches it.
\<close>

datatype error =
    KeyError string
  | IndexError
  | TypeError
  | ValueError string
  | RuntimeError string
  | UnboundLocalError string
  | PermissionError string
  | OSError string
  | RequestException string

text \<open>\<^verbatim>\<open>os.path.join(a, b)\<close> of posixpath: an absolute \<open>b\<close> replaces \<open>a\<close>.\<close>

definition path_join :: "string \<Rightarrow> string \<Rightarrow> string" where
  "path_join a b =
     (if take 1 b = ''/'' then b
      else if a = [] \<or> last a = CHR ''/'' then a @ b
      else a @ ''/'' @ b)"

text \<open>\<^verbatim>\<open>os.path.dirname(p)\<close> of posixpath: up to the last slash, trailing slashes
  stripped unless the head is slashes only.\<close>

definition path_dirname :: "string \<Rightarrow> string" where
  "path_dirname p =
     (let head = rev (dropWhile (\<lambda>c. c \<noteq> CHR ''/'') (rev p)) in
      if head \<noteq> [] \<and> head \<noteq> replicate (length head) (CHR ''/'')
      then rev (dropWhile (\<lambda>c. c = CHR ''/'') (rev head))
      else head)"

text \<open>
  A dict is kept as an association list in insertion order, its keys distinct;
  \<open>map_of\<close> is \<^verbatim>\<open>d.get(k)\<close>. \<^verbatim>\<open>del d[k]\<close>:
\<close>

definition dict_del :: "string \<Rightarrow> (string \<times> 'v) list \<Rightarrow> error + (string \<times> 'v) list" where
  "dict_del k d =
     (if k \<in> fst ` set d then Inr (filter (\<lambda>kv. fst kv \<noteq> k) d) else Inl (KeyError k))"

section \<open>The manifest (db.json, db\_dep.json)\<close>

text \<open>
  A manifest entry is a JSON object; the code reads the keys below. A key that the code
  reads with \<^verbatim>\<open>d[key]\<close> and that may be absent is an \<open>option\<close> (absent: \<open>None\<close>, the
  read raises \<open>KeyError\<close>); a key that is only tested with \<^verbatim>\<open>key in d\<close> is a \<open>bool\<close>.
\<close>

record file_details =
  path :: "string option"
  md5sum :: "string option"

record download_step =
  file_path :: "string option"
  file_name :: "string option"
  file_url :: "string option"
  step_hf_auth :: bool
  manual :: bool
  file_content :: "string option"
  symlink :: "string option"
  git :: bool
  post_process :: "string option list option"
  unzip :: bool

record entry_config =
  files :: "file_details list option"
  download :: "download_step list option"

record entry =
  etype :: "string option"
  config :: "entry_config option"

type_synonym catalog = "(string \<times> entry) list"

section \<open>The manager's state and its environment\<close>

record loaded_model =
  model :: nat
  device :: string

record manager =
  models :: catalog
  dependencies :: catalog
  available_models :: "string list"
  tainted_models :: "string list"
  available_dependencies :: "string list"
  loaded_models :: "(string \<times> loaded_model) list"
  hf_auth :: "(string \<times> string) list option"
  disable_voodoo :: bool
  model_base_path :: string

text \<open>
  The operating system, the network and the libraries the manager calls, over a state
  \<open>'w\<close> of the outside world. An operation that changes the world returns the exception
  it raised, if any, and the world it left behind.
\<close>

record 'w os_env =
  path_exists :: "'w \<Rightarrow> string \<Rightarrow> bool"
  read_bytes :: "'w \<Rightarrow> string \<Rightarrow> error + string"
  expanduser_home :: "'w \<Rightarrow> string"
  makedirs :: "string \<Rightarrow> 'w \<Rightarrow> error option \<times> 'w"
  requests_get :: "'w \<Rightarrow> string \<Rightarrow> error + string"
  response_json :: "string \<Rightarrow> error + catalog"
  load_bundled :: "'w \<Rightarrow> string \<Rightarrow> error + catalog"
  write_file :: "string \<Rightarrow> string \<Rightarrow> 'w \<Rightarrow> error option \<times> 'w"
  os_symlink :: "string \<Rightarrow> string \<Rightarrow> 'w \<Rightarrow> error option \<times> 'w"
  git_clone :: "string \<Rightarrow> string \<Rightarrow> 'w \<Rightarrow> error option \<times> 'w"
  rmtree :: "string \<Rightarrow> 'w \<Rightarrow> error option \<times> 'w"
  os_remove :: "string \<Rightarrow> 'w \<Rightarrow> error option \<times> 'w"
  shutil_move :: "string \<Rightarrow> string \<Rightarrow> 'w \<Rightarrow> error option \<times> 'w"
  extractall :: "string \<Rightarrow> string \<Rightarrow> 'w \<Rightarrow> error option \<times> 'w"
  wait_input :: "'w \<Rightarrow> error option \<times> 'w"
  putenv :: "string \<Rightarrow> string \<Rightarrow> 'w \<Rightarrow> 'w"
  md5_hexdigest :: "string \<Rightarrow> string"
  str_format :: "string \<Rightarrow> string \<Rightarrow> string \<Rightarrow> error + string"

text \<open>The world together with the URLs passed to \<^verbatim>\<open>requests.get\<close> so far, oldest first.\<close>

record 'w io =
  world :: 'w
  requests :: "string list"

definition run :: "('w \<Rightarrow> error option \<times> 'w) \<Rightarrow> 'w io \<Rightarrow> error option \<times> 'w io" where
  "run f s = (case f (world s) of (r, w') \<Rightarrow> (r, s\<lparr>world := w'\<rparr>))"

section \<open>Lookups\<close>

definition get_model :: "manager \<Rightarrow> string \<Rightarrow> error + entry option" where
  "get_model m model_name = Inr (map_of (models m) model_name)"

definition get_dependency :: "manager \<Rightarrow> string \<Rightarrow> error + entry" where
  "get_dependency m dependency_name =
     (case map_of (dependencies m) dependency_name of
        None \<Rightarrow> Inl (KeyError dependency_name)
      | Some e \<Rightarrow> Inr e)"

definition entry_files :: "entry \<Rightarrow> error + file_details list" where
  "entry_files e =
     (case config e of
        None \<Rightarrow> Inl (KeyError ''config'')
      | Some c \<Rightarrow> (case files c of None \<Rightarrow> Inl (KeyError ''files'') | Some fs \<Rightarrow> Inr fs))"

definition entry_download :: "entry \<Rightarrow> error + download_step list" where
  "entry_download e =
     (case config e of
        None \<Rightarrow> Inl (KeyError ''config'')
      | Some c \<Rightarrow> (case download c of None \<Rightarrow> Inl (KeyError ''download'') | Some d \<Rightarrow> Inr d))"

definition get_model_files :: "manager \<Rightarrow> string \<Rightarrow> error + file_details list" where
  "get_model_files m model_name =
     (case map_of (models m) model_name of
        None \<Rightarrow> Inl (KeyError model_name)
      | Some e \<Rightarrow>
          (case etype e of
             None \<Rightarrow> Inl (KeyError ''type'')
           | Some t \<Rightarrow> if t = ''diffusers'' then Inr [] else entry_files e))"

definition get_dependency_files :: "manager \<Rightarrow> string \<Rightarrow> error + file_details list" where
  "get_dependency_files m dependency_name =
     (case map_of (dependencies m) dependency_name of
        None \<Rightarrow> Inl (KeyError dependency_name)
      | Some e \<Rightarrow> entry_files e)"

definition get_model_download :: "manager \<Rightarrow> string \<Rightarrow> error + download_step list" where
  "get_model_download m model_name =
     (case map_of (models m) model_name of
        None \<Rightarrow> Inl (KeyError model_name)
      | Some e \<Rightarrow> entry_download e)"

definition get_dependency_download :: "manager \<Rightarrow> string \<Rightarrow> error + download_step list" where
  "get_dependency_download m dependency_name =
     (case map_of (dependencies m) dependency_name of
        None \<Rightarrow> Inl (KeyError dependency_name)
      | Some e \<Rightarrow> entry_download e)"

section \<open>The loaded-model registry\<close>

definition unload_model :: "string \<Rightarrow> manager \<Rightarrow> bool \<times> manager" where
  "unload_model model_name m =
     (if model_name \<in> fst ` set (loaded_models m)
      then (True, m\<lparr>loaded_models := filter (\<lambda>kv. fst kv \<noteq> model_name) (loaded_models m)\<rparr>)
      else (False, m))"

text \<open>
  \<^verbatim>\<open>for model in self.loaded_models: del self.loaded_models[model]\<close>.
  A dict iterator remembers the size of the dict when the loop starts (\<open>used\<close>); every
  request for the next key first compares it with the current size and raises
  \<open>RuntimeError\<close> when they differ, and only then looks for a key. \<open>ks\<close> are the keys
  the iterator has not yet produced.
\<close>

fun unload_all_loop ::
  "nat \<Rightarrow> string list \<Rightarrow> (string \<times> loaded_model) list \<Rightarrow> error option \<times> (string \<times> loaded_model) list"
where
  "unload_all_loop used [] d =
     (if length d \<noteq> used then (Some (RuntimeError ''dictionary changed size during iteration''), d)
      else (None, d))"
| "unload_all_loop used (k # ks) d =
     (if length d \<noteq> used then (Some (RuntimeError ''dictionary changed size during iteration''), d)
      else case dict_del k d of
             Inl e \<Rightarrow> (Some e, d)
           | Inr d' \<Rightarrow> unload_all_loop used ks d')"

definition unload_all_models :: "manager \<Rightarrow> (error + bool) \<times> manager" where
  "unload_all_models m =
     (case unload_all_loop (length (loaded_models m)) (map fst (loaded_models m)) (loaded_models m) of
        (Some e, d) \<Rightarrow> (Inl e, m\<lparr>loaded_models := d\<rparr>)
      | (None, d) \<Rightarrow> (Inr True, m\<lparr>loaded_models := d\<rparr>))"

section \<open>Tainting\<close>

definition taint_model :: "string \<Rightarrow> manager \<Rightarrow> manager" where
  "taint_model model_name m =
     (if model_name \<in> set (available_models m)
      then m\<lparr>available_models := remove1 model_name (available_models m),
             tainted_models := tainted_models m @ [model_name]\<rparr>
      else m)"

fun taint_models :: "string list \<Rightarrow> manager \<Rightarrow> manager" where
  "taint_models [] m = m"
| "taint_models (x # xs) m = taint_models xs (taint_model x m)"

section \<open>Availability and validation\<close>

definition check_file_available :: "'w os_env \<Rightarrow> 'w \<Rightarrow> manager \<Rightarrow> string \<Rightarrow> bool" where
  "check_file_available env w m p = path_exists env w (path_join (model_base_path m) p)"

text \<open>The loop of \<^verbatim>\<open>check_available\<close> visits every file: it has no early exit.\<close>

fun check_available_loop ::
  "'w os_env \<Rightarrow> 'w \<Rightarrow> manager \<Rightarrow> bool \<Rightarrow> file_details list \<Rightarrow> error + bool"
where
  "check_available_loop env w m available [] = Inr available"
| "check_available_loop env w m available (f # fs) =
     (case path f of
        None \<Rightarrow> Inl (KeyError ''path'')
      | Some p \<Rightarrow>
          check_available_loop env w m
            (if \<not> check_file_available env w m p then False else available) fs)"

definition check_available :: "'w os_env \<Rightarrow> 'w \<Rightarrow> manager \<Rightarrow> file_details list \<Rightarrow> error + bool" where
  "check_available env w m fs = check_available_loop env w m True fs"

text \<open>
  \<^verbatim>\<open>while chunk := file_to_check.read(8192): file_hash.update(chunk)\<close>.
  The hash object is modelled by the bytes it has been fed; \<open>rest\<close> is the unread part
  of the file.
\<close>

function md5_update_loop :: "string \<Rightarrow> string \<Rightarrow> string" where
  "md5_update_loop fed rest =
     (let chunk = take 8192 rest in
      if chunk = [] then fed else md5_update_loop (fed @ chunk) (drop 8192 rest))"
  by pat_completeness auto
termination
  by (relation "measure (\<lambda>(fed, rest). length rest)") auto

declare md5_update_loop.simps [simp del]

definition validate_file :: "'w os_env \<Rightarrow> 'w \<Rightarrow> file_details \<Rightarrow> error + bool" where
  "validate_file env w fd =
     (case md5sum fd of
        None \<Rightarrow> Inr True
      | Some declared \<Rightarrow>
          (case path fd of
             None \<Rightarrow> Inl (KeyError ''path'')
           | Some fname \<Rightarrow>
               (case read_bytes env w fname of
                  Inl e \<Rightarrow> Inl e
                | Inr content \<Rightarrow>
                    if declared \<noteq> md5_hexdigest env (md5_update_loop [] content)
                    then Inr False else Inr True)))"

fun validate_model_loop ::
  "'w os_env \<Rightarrow> 'w \<Rightarrow> manager \<Rightarrow> file_details list \<Rightarrow> error + bool"
where
  "validate_model_loop env w m [] = Inr True"
| "validate_model_loop env w m (fd # fs) =
     (case path fd of
        None \<Rightarrow> Inl (KeyError ''path'')
      | Some p \<Rightarrow>
          if \<not> check_file_available env w m p then Inr False
          else (case validate_file env w fd of
                  Inl e \<Rightarrow> Inl e
                | Inr ok \<Rightarrow> if \<not> ok then Inr False else validate_model_loop env w m fs))"

definition validate_model :: "'w os_env \<Rightarrow> 'w \<Rightarrow> manager \<Rightarrow> string \<Rightarrow> error + bool" where
  "validate_model env w m model_name =
     (case get_model_files m model_name of
        Inl e \<Rightarrow> Inl e
      | Inr fs \<Rightarrow> validate_model_loop env w m fs)"

definition check_model_available :: "'w os_env \<Rightarrow> 'w \<Rightarrow> manager \<Rightarrow> string \<Rightarrow> error + bool" where
  "check_model_available env w m model_name =
     (if model_name \<notin> fst ` set (models m) then Inr False
      else case get_model_files m model_name of
             Inl e \<Rightarrow> Inl e
           | Inr fs \<Rightarrow> check_available env w m fs)"

definition check_dependency_available :: "'w os_env \<Rightarrow> 'w \<Rightarrow> manager \<Rightarrow> string \<Rightarrow> error + bool" where
  "check_dependency_available env w m dependency_name =
     (if dependency_name \<notin> fst ` set (dependencies m) then Inr False
      else case get_dependency_files m dependency_name of
             Inl e \<Rightarrow> Inl e
           | Inr fs \<Rightarrow> check_available env w m fs)"

section \<open>Recomputing availability: \<^verbatim>\<open>init\<close>\<close>

text \<open>
  One scan of \<^verbatim>\<open>init\<close>: \<^verbatim>\<open>for name in catalog: if self.check_available(get_files(name)):
  found.append(name)\<close>. An exception leaves the loop before the result is stored.
\<close>

fun scan_available ::
  "(string \<Rightarrow> error + file_details list) \<Rightarrow> (file_details list \<Rightarrow> error + bool) \<Rightarrow>
   string list \<Rightarrow> string list \<Rightarrow> error + string list"
where
  "scan_available get_files check found [] = Inr found"
| "scan_available get_files check found (n # ns) =
     (case get_files n of
        Inl e \<Rightarrow> Inl e
      | Inr fs \<Rightarrow>
          (case check fs of
             Inl e \<Rightarrow> Inl e
           | Inr ok \<Rightarrow> scan_available get_files check (if ok then found @ [n] else found) ns))"

definition check_hf_auth :: "(string \<times> string) list option \<Rightarrow> error option" where
  "check_hf_auth auth =
     (case auth of
        None \<Rightarrow> None
      | Some a \<Rightarrow>
          if map_of a ''username'' = None \<and> map_of a ''password'' = None
          then Some (ValueError ''hf_auth must contain username and password'')
          else (case map_of a ''username'' of
                  None \<Rightarrow> Some (KeyError ''username'')
                | Some u \<Rightarrow>
                    if u = [] then Some (ValueError ''hf_auth must contain username and password'')
                    else (case map_of a ''password'' of
                            None \<Rightarrow> Some (KeyError ''password'')
                          | Some p \<Rightarrow>
                              if p = []
                              then Some (ValueError ''hf_auth must contain username and password'')
                              else None)))"

definition init :: "'w os_env \<Rightarrow> 'w \<Rightarrow> manager \<Rightarrow> (error + bool) \<times> manager" where
  "init env w m =
     (case scan_available (get_dependency_files m) (check_available env w m) []
             (map fst (dependencies m)) of
        Inl e \<Rightarrow> (Inl e, m)
      | Inr dependencies_available \<Rightarrow>
          (let m1 = m\<lparr>available_dependencies := dependencies_available\<rparr> in
           case scan_available (get_model_files m1) (check_available env w m1) []
                  (map fst (models m1)) of
             Inl e \<Rightarrow> (Inl e, m1)
           | Inr models_available \<Rightarrow>
               (let m2 = m1\<lparr>available_models := models_available\<rparr> in
                case check_hf_auth (hf_auth m2) of
                  Some e \<Rightarrow> (Inl e, m2)
                | None \<Rightarrow> (Inr True, m2))))"

section \<open>Downloading\<close>

text \<open>
  \<^verbatim>\<open>download_file\<close>: creates the directory, requests the URL, then writes the body
  (the chunks of \<^verbatim>\<open>iter_content\<close>, one after the other) to the file.
\<close>

definition download_file ::
  "'w os_env \<Rightarrow> manager \<Rightarrow> string \<Rightarrow> string \<Rightarrow> 'w io \<Rightarrow> error option \<times> 'w io"
where
  "download_file env m url fp s =
     (let full = path_join (model_base_path m) fp in
      case run (makedirs env (path_dirname full)) s of
        (Some e, s1) \<Rightarrow> (Some e, s1)
      | (None, s1) \<Rightarrow>
          (let s2 = s1\<lparr>requests := requests s1 @ [url]\<rparr> in
           case requests_get env (world s2) url of
             Inl e \<Rightarrow> (Some e, s2)
           | Inr body \<Rightarrow> run (write_file env full body) s2))"

text \<open>
  The local variables of the download loops that are assigned only under a condition and
  keep their value from one iteration to the next; \<open>None\<close> is a variable not yet bound.
\<close>

record locals =
  download_url :: "string option"
  download_name :: "string option"
  download_path :: "string option"

definition no_locals :: locals where
  "no_locals = \<lparr>download_url = None, download_name = None, download_path = None\<rparr>"

subsection \<open>\<^verbatim>\<open>download_model\<close>\<close>

text \<open>Lines 227-231: the path of step \<open>i\<close> before it is joined to the base directory.\<close>

definition step_file_path :: "file_details list \<Rightarrow> nat \<Rightarrow> download_step \<Rightarrow> error + string" where
  "step_file_path fs i d =
     (case file_path d of
        Some dp \<Rightarrow>
          (case file_name d of
             None \<Rightarrow> Inl (KeyError ''file_name'')
           | Some dn \<Rightarrow> Inr (dp @ ''/'' @ dn))
      | None \<Rightarrow>
          if i < length fs
          then (case path (fs ! i) of None \<Rightarrow> Inl (KeyError ''path'') | Some p \<Rightarrow> Inr p)
          else Inl IndexError)"

text \<open>Lines 234-239: the URL of the step, with the credentials filled in when the step
  has the key \<^verbatim>\<open>hf_auth\<close>.\<close>

definition step_url ::
  "'w os_env \<Rightarrow> manager \<Rightarrow> download_step \<Rightarrow> locals \<Rightarrow> error + locals"
where
  "step_url env m d ls =
     (case file_url d of
        None \<Rightarrow> Inr ls
      | Some u \<Rightarrow>
          if step_hf_auth d then
            (case hf_auth m of
               None \<Rightarrow> Inl TypeError
             | Some a \<Rightarrow>
                 (case map_of a ''username'' of
                    None \<Rightarrow> Inl (KeyError ''username'')
                  | Some username \<Rightarrow>
                      (case map_of a ''password'' of
                         None \<Rightarrow> Inl (KeyError ''password'')
                       | Some password \<Rightarrow>
                           (case str_format env u username password of
                              Inl e \<Rightarrow> Inl e
                            | Inr u' \<Rightarrow> Inr (ls\<lparr>download_url := Some u'\<rparr>)))))
          else Inr (ls\<lparr>download_url := Some u\<rparr>))"

text \<open>Lines 240-244.\<close>

definition step_name_path :: "manager \<Rightarrow> download_step \<Rightarrow> locals \<Rightarrow> locals" where
  "step_name_path m d ls =
     (let ls1 = (case file_name d of None \<Rightarrow> ls | Some n \<Rightarrow> ls\<lparr>download_name := Some n\<rparr>)
      in case file_path d of
           None \<Rightarrow> ls1
         | Some p \<Rightarrow> ls1\<lparr>download_path := Some (path_join (model_base_path m) p)\<rparr>)"

text \<open>Lines 246-252: the warning reads the three variables, then \<^verbatim>\<open>input("")\<close> waits.\<close>

definition manual_step :: "'w os_env \<Rightarrow> locals \<Rightarrow> 'w io \<Rightarrow> error option \<times> 'w io" where
  "manual_step env ls s =
     (case download_url ls of
        None \<Rightarrow> (Some (UnboundLocalError ''download_url''), s)
      | Some u \<Rightarrow>
          (case download_path ls of
             None \<Rightarrow> (Some (UnboundLocalError ''download_path''), s)
           | Some dp \<Rightarrow>
               (case download_name ls of
                  None \<Rightarrow> (Some (UnboundLocalError ''download_name''), s)
                | Some dn \<Rightarrow> run (wait_input env) s)))"

text \<open>Lines 254-261.\<close>

definition file_content_step ::
  "'w os_env \<Rightarrow> locals \<Rightarrow> string \<Rightarrow> 'w io \<Rightarrow> error option \<times> 'w io"
where
  "file_content_step env ls content s =
     (case download_path ls of
        None \<Rightarrow> (Some (UnboundLocalError ''download_path''), s)
      | Some dp \<Rightarrow>
          (case run (makedirs env dp) s of
             (Some e, s1) \<Rightarrow> (Some e, s1)
           | (None, s1) \<Rightarrow>
               (case download_name ls of
                  None \<Rightarrow> (Some (UnboundLocalError ''download_name''), s1)
                | Some dn \<Rightarrow> run (write_file env (path_join dp dn) content) s1)))"

text \<open>Lines 262-269.\<close>

definition symlink_step ::
  "'w os_env \<Rightarrow> manager \<Rightarrow> locals \<Rightarrow> string \<Rightarrow> 'w io \<Rightarrow> error option \<times> 'w io"
where
  "symlink_step env m ls target s =
     (let link_to = path_join (model_base_path m) target in
      case download_path ls of
        None \<Rightarrow> (Some (UnboundLocalError ''download_path''), s)
      | Some dp \<Rightarrow>
          (case run (makedirs env dp) s of
             (Some e, s1) \<Rightarrow> (Some e, s1)
           | (None, s1) \<Rightarrow>
               (case download_name ls of
                  None \<Rightarrow> (Some (UnboundLocalError ''download_name''), s1)
                | Some dn \<Rightarrow> run (os_symlink env link_to (path_join dp dn)) s1)))"

text \<open>
  Lines 275-288: each \<^verbatim>\<open>delete\<close> entry is overwritten with its joined path (the manifest
  entry itself is changed), then the tree is removed; only \<open>PermissionError\<close> is caught.
  The second component is the list of entries as the loop leaves it.
\<close>

fun post_process_loop ::
  "'w os_env \<Rightarrow> manager \<Rightarrow> string option list \<Rightarrow> 'w io \<Rightarrow>
   error option \<times> string option list \<times> 'w io"
where
  "post_process_loop env m [] s = (None, [], s)"
| "post_process_loop env m (None # pps) s =
     (case post_process_loop env m pps s of (r, pps', s') \<Rightarrow> (r, None # pps', s'))"
| "post_process_loop env m (Some del # pps) s =
     (let target = path_join (model_base_path m) del in
      case run (rmtree env target) s of
        (Some (PermissionError x), s1) \<Rightarrow>
          (case post_process_loop env m pps s1 of (r, pps', s') \<Rightarrow> (r, Some target # pps', s'))
      | (Some e, s1) \<Rightarrow> (Some e, Some target # pps, s1)
      | (None, s1) \<Rightarrow>
          (case post_process_loop env m pps s1 of (r, pps', s') \<Rightarrow> (r, Some target # pps', s')))"

text \<open>Lines 270-288.\<close>

definition git_step ::
  "'w os_env \<Rightarrow> manager \<Rightarrow> locals \<Rightarrow> string \<Rightarrow> download_step \<Rightarrow> 'w io \<Rightarrow>
   error option \<times> string option list option \<times> 'w io"
where
  "git_step env m ls fp d s =
     (case download_url ls of
        None \<Rightarrow> (Some (UnboundLocalError ''download_url''), post_process d, s)
      | Some url \<Rightarrow>
          (case run (makedirs env fp) s of
             (Some e, s1) \<Rightarrow> (Some e, post_process d, s1)
           | (None, s1) \<Rightarrow>
               (case run (git_clone env fp url) s1 of
                  (Some e, s2) \<Rightarrow> (Some e, post_process d, s2)
                | (None, s2) \<Rightarrow>
                    (case post_process d of
                       None \<Rightarrow> (None, None, s2)
                     | Some pps \<Rightarrow>
                         (case post_process_loop env m pps s2 of
                            (r, pps', s3) \<Rightarrow> (r, Some pps', s3))))))"

text \<open>Lines 289-292: the plain or authenticated fetch.\<close>

definition fetch_step ::
  "'w os_env \<Rightarrow> manager \<Rightarrow> string \<Rightarrow> locals \<Rightarrow> string \<Rightarrow> 'w io \<Rightarrow> error option \<times> 'w io"
where
  "fetch_step env m model_name ls fp s =
     (if \<not> check_file_available env (world s) m fp \<or> model_name \<in> set (tainted_models m)
      then (case download_url ls of
              None \<Rightarrow> (Some (UnboundLocalError ''download_url''), s)
            | Some url \<Rightarrow> download_file env m url fp s)
      else (None, s))"

text \<open>The manifest after the \<^verbatim>\<open>post_process\<close> entries of step \<open>i\<close> were overwritten.\<close>

definition set_post_process ::
  "string \<Rightarrow> nat \<Rightarrow> string option list option \<Rightarrow> manager \<Rightarrow> manager"
where
  "set_post_process model_name i pps m =
     m\<lparr>models :=
         map (\<lambda>(k, e).
                if k = model_name
                then (k, e\<lparr>config :=
                            map_option
                              (\<lambda>c. c\<lparr>download :=
                                        map_option
                                          (\<lambda>ds. if i < length ds
                                                then ds[i := (ds ! i)\<lparr>post_process := pps\<rparr>]
                                                else ds)
                                          (download c)\<rparr>)
                              (config e)\<rparr>)
                else (k, e))
             (models m)\<rparr>"

text \<open>One iteration of the loop of \<^verbatim>\<open>download_model\<close> (lines 227-292).\<close>

definition download_model_step ::
  "'w os_env \<Rightarrow> string \<Rightarrow> file_details list \<Rightarrow> nat \<Rightarrow> download_step \<Rightarrow>
   locals \<Rightarrow> manager \<Rightarrow> 'w io \<Rightarrow> error option \<times> locals \<times> manager \<times> 'w io"
where
  "download_model_step env model_name fs i d ls m s =
     (case step_file_path fs i d of
        Inl e \<Rightarrow> (Some e, ls, m, s)
      | Inr rel \<Rightarrow>
          (let fp = path_join (model_base_path m) rel in
           case step_url env m d ls of
             Inl e \<Rightarrow> (Some e, ls, m, s)
           | Inr ls0 \<Rightarrow>
               (let ls1 = step_name_path m d ls0 in
                if manual d then
                  (case manual_step env ls1 s of (r, s') \<Rightarrow> (r, ls1, m, s'))
                else
                  (case file_content d of
                     Some content \<Rightarrow>
                       (case file_content_step env ls1 content s of (r, s') \<Rightarrow> (r, ls1, m, s'))
                   | None \<Rightarrow>
                       (case symlink d of
                          Some target \<Rightarrow>
                            (case symlink_step env m ls1 target s of (r, s') \<Rightarrow> (r, ls1, m, s'))
                        | None \<Rightarrow>
                            if git d then
                              (case git_step env m ls1 fp d s of
                                 (r, pps, s') \<Rightarrow> (r, ls1, set_post_process model_name i pps m, s'))
                            else
                              (case fetch_step env m model_name ls1 fp s of
                                 (r, s') \<Rightarrow> (r, ls1, m, s')))))))"

fun download_model_loop ::
  "'w os_env \<Rightarrow> string \<Rightarrow> file_details list \<Rightarrow> nat \<Rightarrow> download_step list \<Rightarrow>
   locals \<Rightarrow> manager \<Rightarrow> 'w io \<Rightarrow> error option \<times> manager \<times> 'w io"
where
  "download_model_loop env model_name fs i [] ls m s = (None, m, s)"
| "download_model_loop env model_name fs i (d # ds) ls m s =
     (case download_model_step env model_name fs i d ls m s of
        (Some e, ls', m', s') \<Rightarrow> (Some e, m', s')
      | (None, ls', m', s') \<Rightarrow> download_model_loop env model_name fs (Suc i) ds ls' m' s')"

definition download_model ::
  "'w os_env \<Rightarrow> string \<Rightarrow> manager \<Rightarrow> 'w io \<Rightarrow> (error + bool) \<times> manager \<times> 'w io"
where
  "download_model env model_name m s =
     (if model_name \<in> set (available_models m) then (Inr True, m, s)
      else
        case get_model_download m model_name of
          Inl e \<Rightarrow> (Inl e, m, s)
        | Inr steps \<Rightarrow>
            (case get_model_files m model_name of
               Inl e \<Rightarrow> (Inl e, m, s)
             | Inr fs \<Rightarrow>
                 (case download_model_loop env model_name fs 0 steps no_locals m s of
                    (Some e, m1, s1) \<Rightarrow> (Inl e, m1, s1)
                  | (None, m1, s1) \<Rightarrow>
                      (case validate_model env (world s1) m1 model_name of
                         Inl e \<Rightarrow> (Inl e, m1, s1)
                       | Inr ok \<Rightarrow>
                           if \<not> ok then (Inr False, m1, s1)
                           else
                             (let m2 = (if model_name \<in> set (tainted_models m1)
                                        then m1\<lparr>tainted_models :=
                                                  remove1 model_name (tainted_models m1)\<rparr>
                                        else m1)
                              in case init env (world s1) m2 of
                                   (Inl e, m3) \<Rightarrow> (Inl e, m3, s1)
                                 | (Inr r, m3) \<Rightarrow> (Inr True, m3, s1))))))"

subsection \<open>\<^verbatim>\<open>download_dependency\<close>\<close>

text \<open>Lines 322-338: fetch the archive, extract it, move the directory, clean up.\<close>

definition unzip_step ::
  "'w os_env \<Rightarrow> manager \<Rightarrow> locals \<Rightarrow> string \<Rightarrow> 'w io \<Rightarrow> error option \<times> 'w io"
where
  "unzip_step env m ls dn s =
     (let zip_path = path_join (model_base_path m) (''temp/'' @ dn @ ''.zip'') in
      case run (makedirs env (path_join (model_base_path m) ''temp'')) s of
        (Some e, s1) \<Rightarrow> (Some e, s1)
      | (None, s1) \<Rightarrow>
          (case download_url ls of
             None \<Rightarrow> (Some (UnboundLocalError ''download_url''), s1)
           | Some url \<Rightarrow>
               (case download_file env m url zip_path s1 of
                  (Some e, s2) \<Rightarrow> (Some e, s2)
                | (None, s2) \<Rightarrow>
                    (case run (extractall env zip_path ''temp/'') s2 of
                       (Some e, s3) \<Rightarrow> (Some e, s3)
                     | (None, s3) \<Rightarrow>
                         (case download_path ls of
                            None \<Rightarrow> (Some (UnboundLocalError ''download_path''), s3)
                          | Some dp \<Rightarrow>
                              (case run (shutil_move env
                                           (model_base_path m @ ''/temp/'' @ dn @ ''-main/'' @ dn) dp) s3 of
                                 (Some e, s4) \<Rightarrow> (Some e, s4)
                               | (None, s4) \<Rightarrow>
                                   (case run (os_remove env zip_path) s4 of
                                      (Some e, s5) \<Rightarrow> (Some e, s5)
                                    | (None, s5) \<Rightarrow>
                                        run (rmtree env
                                               (model_base_path m @ ''/temp/'' @ dn @ ''-main'')) s5)))))))"

text \<open>One iteration of the loop of \<^verbatim>\<open>download_dependency\<close> for a step without the key
  \<^verbatim>\<open>git\<close> (lines 311-342).\<close>

definition download_dependency_step ::
  "'w os_env \<Rightarrow> manager \<Rightarrow> file_details list \<Rightarrow> nat \<Rightarrow> download_step \<Rightarrow>
   locals \<Rightarrow> 'w io \<Rightarrow> error option \<times> locals \<times> 'w io"
where
  "download_dependency_step env m fs i d ls s =
     (if i < length fs then
        (case path (fs ! i) of
           None \<Rightarrow> (Some (KeyError ''path''), ls, s)
         | Some p \<Rightarrow>
             (let fp = path_join (model_base_path m) p;
                  ls0 = (case file_url d of None \<Rightarrow> ls | Some u \<Rightarrow> ls\<lparr>download_url := Some u\<rparr>);
                  ls1 = step_name_path m d ls0
              in case download_name ls1 of
                   None \<Rightarrow> (Some (UnboundLocalError ''download_name''), ls1, s)
                 | Some dn \<Rightarrow>
                     if unzip d then
                       (case unzip_step env m ls1 dn s of (r, s') \<Rightarrow> (r, ls1, s'))
                     else if \<not> check_file_available env (world s) m fp then
                       (case download_url ls1 of
                          None \<Rightarrow> (Some (UnboundLocalError ''download_url''), ls1, s)
                        | Some url \<Rightarrow>
                            (case download_file env m url fp s of (r, s') \<Rightarrow> (r, ls1, s')))
                     else (None, ls1, s)))
      else (Some IndexError, ls, s))"

text \<open>The loop (lines 306-342): a step with the key \<^verbatim>\<open>git\<close> logs a warning and leaves
  the loop (\<^verbatim>\<open>break\<close>).\<close>

fun download_dependency_loop ::
  "'w os_env \<Rightarrow> manager \<Rightarrow> file_details list \<Rightarrow> nat \<Rightarrow> download_step list \<Rightarrow>
   locals \<Rightarrow> 'w io \<Rightarrow> error option \<times> 'w io"
where
  "download_dependency_loop env m fs i [] ls s = (None, s)"
| "download_dependency_loop env m fs i (d # ds) ls s =
     (if git d then (None, s)
      else
        case download_dependency_step env m fs i d ls s of
          (Some e, ls', s') \<Rightarrow> (Some e, s')
        | (None, ls', s') \<Rightarrow> download_dependency_loop env m fs (Suc i) ds ls' s')"

definition download_dependency ::
  "'w os_env \<Rightarrow> string \<Rightarrow> manager \<Rightarrow> 'w io \<Rightarrow> (error + bool) \<times> manager \<times> 'w io"
where
  "download_dependency env dependency_name m s =
     (if dependency_name \<in> set (available_dependencies m) then (Inr True, m, s)
      else
        case get_dependency_download m dependency_name of
          Inl e \<Rightarrow> (Inl e, m, s)
        | Inr steps \<Rightarrow>
            (case get_dependency_files m dependency_name of
               Inl e \<Rightarrow> (Inl e, m, s)
             | Inr fs \<Rightarrow>
                 (case download_dependency_loop env m fs 0 steps no_locals s of
                    (Some e, s1) \<Rightarrow> (Inl e, m, s1)
                  | (None, s1) \<Rightarrow>
                      (case init env (world s1) m of
                         (Inl e, m1) \<Rightarrow> (Inl e, m1, s1)
                       | (Inr r, m1) \<Rightarrow> (Inr True, m1, s1)))))"

section \<open>Construction\<close>

definition set_authentication ::
  "'w os_env \<Rightarrow> (string \<times> string) list option \<Rightarrow> manager \<Rightarrow> 'w \<Rightarrow> error option \<times> manager \<times> 'w"
where
  "set_authentication env auth m w =
     (if (auth = None \<or> auth = Some []) \<and> hf_auth m \<noteq> None \<and> hf_auth m \<noteq> Some [] then (None, m, w)
      else
        (let m1 = m\<lparr>hf_auth := auth\<rparr> in
         case auth of
           None \<Rightarrow> (None, m1, w)
         | Some a \<Rightarrow>
             if a = [] then (None, m1, w)
             else (case map_of a ''password'' of
                     None \<Rightarrow> (Some TypeError, m1, w)
                   | Some p \<Rightarrow> (None, m1, putenv env ''HUGGING_FACE_HUB_TOKEN'' p w))))"

definition has_authentication :: "manager \<Rightarrow> bool" where
  "has_authentication m = (hf_auth m \<noteq> None \<and> hf_auth m \<noteq> Some [])"

definition remote_models :: string where
  "remote_models = ''https://raw.githubusercontent.com/Sygil-Dev/nataili-model-reference/main/db.json''"

definition remote_dependencies :: string where
  "remote_dependencies =
     ''https://raw.githubusercontent.com/Sygil-Dev/nataili-model-reference/main/db_dep.json''"

text \<open>The bundled copies: \<^verbatim>\<open>json.load(open(pkg / "db.json"))\<close> and the same for
  \<^verbatim>\<open>db_dep.json\<close> (lines 43-44 and 47-48).\<close>

definition load_local :: "'w os_env \<Rightarrow> 'w \<Rightarrow> error + catalog \<times> catalog" where
  "load_local env w =
     (case load_bundled env w ''db.json'' of
        Inl e \<Rightarrow> Inl e
      | Inr ms \<Rightarrow>
          (case load_bundled env w ''db_dep.json'' of
             Inl e \<Rightarrow> Inl e
           | Inr ds \<Rightarrow> Inr (ms, ds)))"

text \<open>
  Lines 33-48. In the \<^verbatim>\<open>try\<close> block the second response is assigned to \<^verbatim>\<open>r\<close> and not
  read: \<^verbatim>\<open>self.dependencies\<close> is loaded from the bundled \<^verbatim>\<open>db_dep.json\<close>. Every
  exception of the block leads to the \<^verbatim>\<open>except\<close> branch, which loads both bundled copies.
\<close>

definition load_reference ::
  "'w os_env \<Rightarrow> bool \<Rightarrow> 'w io \<Rightarrow> (error + catalog \<times> catalog) \<times> 'w io"
where
  "load_reference env dl s =
     (if dl then
        (let s1 = s\<lparr>requests := requests s @ [remote_models]\<rparr> in
         case requests_get env (world s) remote_models of
           Inl e \<Rightarrow> (load_local env (world s), s1)
         | Inr body \<Rightarrow>
             (case response_json env body of
                Inl e \<Rightarrow> (load_local env (world s), s1)
              | Inr ms \<Rightarrow>
                  (let s2 = s1\<lparr>requests := requests s1 @ [remote_dependencies]\<rparr> in
                   case requests_get env (world s) remote_dependencies of
                     Inl e \<Rightarrow> (load_local env (world s), s2)
                   | Inr body2 \<Rightarrow>
                       (case load_bundled env (world s) ''db_dep.json'' of
                          Inl e \<Rightarrow> (load_local env (world s), s2)
                        | Inr ds \<Rightarrow> (Inr (ms, ds), s2)))))
      else (load_local env (world s), s))"

text \<open>
  \<^verbatim>\<open>ModelManager.__init__(model_base_path, hf_auth, download, disable_voodoo)\<close>.
  \<^verbatim>\<open>disable_voodoo\<close> and \<^verbatim>\<open>model_base_path\<close> are assigned after
  \<^verbatim>\<open>set_authentication\<close>, which reads neither; until then they hold a placeholder.
  An exception leaves no manager behind.
\<close>

definition ModelManager ::
  "'w os_env \<Rightarrow> string option \<Rightarrow> (string \<times> string) list option \<Rightarrow> bool \<Rightarrow> bool \<Rightarrow>
   'w io \<Rightarrow> (error + manager) \<times> 'w io"
where
  "ModelManager env base auth dl voodoo s =
     (case load_reference env dl s of
        (Inl e, s1) \<Rightarrow> (Inl e, s1)
      | (Inr (ms, ds), s1) \<Rightarrow>
          (let m0 = \<lparr>models = ms, dependencies = ds, available_models = [], tainted_models = [],
                     available_dependencies = [], loaded_models = [], hf_auth = None,
                     disable_voodoo = voodoo, model_base_path = []\<rparr>
           in case set_authentication env auth m0 (world s1) of
                (Some e, m1, w1) \<Rightarrow> (Inl e, s1\<lparr>world := w1\<rparr>)
              | (None, m1, w1) \<Rightarrow>
                  (let base_path =
                         (case base of
                            None \<Rightarrow> path_join (expanduser_home env w1) ''.nataili''
                          | Some b \<Rightarrow>
                              if b = [] then path_join (expanduser_home env w1) ''.nataili'' else b);
                       m2 = m1\<lparr>disable_voodoo := voodoo, model_base_path := base_path\<rparr>
                   in if \<not> path_exists env w1 base_path
                      then (case makedirs env base_path w1 of
                              (Some e, w2) \<Rightarrow> (Inl e, s1\<lparr>world := w2\<rparr>)
                            | (None, w2) \<Rightarrow> (Inr m2, s1\<lparr>world := w2\<rparr>))
                      else (Inr m2, s1\<lparr>world := w1\<rparr>))))"

section \<open>A small concrete environment\<close>

text \<open>
  A disk of files only (absolute path and content; a relative path is resolved against
  the working directory \<open>cwd\<close>), a network that serves a fixed table of URLs, and
  directory and link operations that always succeed. MD5 is given by a table of the
  digests (as \<^verbatim>\<open>hashlib.md5(content).hexdigest()\<close> returns them) of the contents the
  examples use; a content outside the table gets the empty string, which is no digest.
  The bundled manifests and the parser of the remote manifest are parameters.
\<close>

definition md5_table :: "(string \<times> string) list" where
  "md5_table =
     [(''abc123'', ''e99a18c428cb38d5f260853678922e03''),
      (''abc124'', ''b71a4cd635e0ea3e43adcc1e0c755416''),
      (''d'', ''8277e0910d750195b448797616e091ad''),
      ([], ''d41d8cd98f00b204e9800998ecf8427e'')]"

type_synonym disk = "(string \<times> string) list"

definition disk_env ::
  "string \<Rightarrow> (string \<times> string) list \<Rightarrow> (string \<Rightarrow> error + catalog) \<Rightarrow> catalog \<Rightarrow> catalog \<Rightarrow>
   disk os_env"
where
  "disk_env cwd net parse bundled_models bundled_dependencies =
     \<lparr>path_exists = (\<lambda>w p. map_of w (path_join cwd p) \<noteq> None),
      read_bytes = (\<lambda>w p. case map_of w (path_join cwd p) of
                             None \<Rightarrow> Inl (OSError ''No such file'')
                           | Some c \<Rightarrow> Inr c),
      expanduser_home = (\<lambda>w. ''/home/user''),
      makedirs = (\<lambda>p w. (None, w)),
      requests_get = (\<lambda>w url. case map_of net url of
                                 None \<Rightarrow> Inl (RequestException url)
                               | Some body \<Rightarrow> Inr body),
      response_json = parse,
      load_bundled = (\<lambda>w name. if name = ''db.json'' then Inr bundled_models
                                else Inr bundled_dependencies),
      write_file = (\<lambda>p c w. (None, (path_join cwd p, c) # w)),
      os_symlink = (\<lambda>src dst w. (None, (path_join cwd dst, src) # w)),
      git_clone = (\<lambda>dir url w. (None, w)),
      rmtree = (\<lambda>p w. (None, filter (\<lambda>kv. fst kv \<noteq> path_join cwd p) w)),
      os_remove = (\<lambda>p w. (None, filter (\<lambda>kv. fst kv \<noteq> path_join cwd p) w)),
      shutil_move = (\<lambda>src dst w. (None, w)),
      extractall = (\<lambda>zip dir w. (None, w)),
      wait_input = (\<lambda>w. (None, w)),
      putenv = (\<lambda>k v w. w),
      md5_hexdigest = (\<lambda>bytes. case map_of md5_table bytes of None \<Rightarrow> [] | Some h \<Rightarrow> h),
      str_format = (\<lambda>template username password. Inr template)\<rparr>"

text \<open>A manifest after the specification's scenario: model \<open>M\<close> needs \<open>m.bin\<close>, fetched
  from \<open>http://x/m.bin\<close>, which serves the content \<open>abc123\<close>; the declared checksum is
  the MD5 digest of that content. Dependency \<open>D\<close> has a git step followed by a plain
  fetch.\<close>

definition plain_step :: "string \<Rightarrow> string \<Rightarrow> download_step" where
  "plain_step name url =
     \<lparr>file_path = None, file_name = Some name, file_url = Some url, step_hf_auth = False,
      manual = False, file_content = None, symlink = None, git = False, post_process = None,
      unzip = False\<rparr>"

definition file_entry :: "string \<Rightarrow> file_details list \<Rightarrow> download_step list \<Rightarrow> entry" where
  "file_entry t fs ds = \<lparr>etype = Some t, config = Some \<lparr>files = Some fs, download = Some ds\<rparr>\<rparr>"

definition scenario_models :: catalog where
  "scenario_models =
     [(''M'', file_entry ''ckpt'' [\<lparr>path = Some ''m.bin'',
                                  md5sum = Some ''e99a18c428cb38d5f260853678922e03''\<rparr>]
                [plain_step ''m.bin'' ''http://x/m.bin''])]"

definition scenario_dependencies :: catalog where
  "scenario_dependencies =
     [(''D'', file_entry ''dep'' [\<lparr>path = Some ''d.git'', md5sum = None\<rparr>,
                                 \<lparr>path = Some ''d.bin'', md5sum = None\<rparr>]
                [(plain_step ''d.git'' ''http://x/d.git'')\<lparr>git := True\<rparr>,
                 plain_step ''d.bin'' ''http://x/d.bin''])]"

definition scenario_env :: "disk os_env" where
  "scenario_env =
     disk_env ''/b'' [(''http://x/m.bin'', ''abc123''), (''http://x/d.bin'', ''d'')]
       (\<lambda>body. Inl (ValueError body)) scenario_models scenario_dependencies"

definition scenario_manager :: manager where
  "scenario_manager =
     \<lparr>models = scenario_models, dependencies = scenario_dependencies, available_models = [],
      tainted_models = [], available_dependencies = [], loaded_models = [], hf_auth = None,
      disable_voodoo = True, model_base_path = ''/b''\<rparr>"

text \<open>A remote reference that differs from the bundled one.\<close>

definition remote_catalog :: catalog where
  "remote_catalog = [(''R'', \<lparr>etype = Some ''diffusers'', config = None\<rparr>)]"

definition remote_dependency_catalog :: catalog where
  "remote_dependency_catalog = [(''RD'', file_entry ''dep'' [] [])]"

definition remote_env :: "disk os_env" where
  "remote_env =
     disk_env ''/b'' [(remote_models, ''MODELS''), (remote_dependencies, ''DEPENDENCIES'')]
       (\<lambda>body. if body = ''MODELS'' then Inr remote_catalog
                else if body = ''DEPENDENCIES'' then Inr remote_dependency_catalog
                else Inl (ValueError body))
       scenario_models scenario_dependencies"

section \<open>The registry\<close>

lemma unload_all_loop_changed:
  "length d \<noteq> used \<Longrightarrow>
   unload_all_loop used ks d = (Some (RuntimeError ''dictionary changed size during iteration''), d)"
  by (cases ks) simp_all

text \<open>With at least one loaded model the loop deletes the first key and the next request
  to the iterator raises.\<close>

lemma unload_all_models_raises:
  assumes "loaded_models m = (k, v) # rest" and "k \<notin> fst ` set rest"
  shows "unload_all_models m =
           (Inl (RuntimeError ''dictionary changed size during iteration''),
            m\<lparr>loaded_models := rest\<rparr>)"
proof -
  have f: "filter (\<lambda>kv. fst kv \<noteq> k) rest = rest"
    using assms(2) by (induction rest) auto
  show ?thesis
    using assms(1) f by (simp add: unload_all_models_def dict_del_def unload_all_loop_changed)
qed

lemma unload_all_models_empty:
  "loaded_models m = [] \<Longrightarrow> unload_all_models m = (Inr True, m)"
  by (simp add: unload_all_models_def)

text \<open>
  C2 (the code departs from the claim). With two loaded models \<^verbatim>\<open>unload_all_models\<close>
  raises \<open>RuntimeError\<close> and the second model is still registered: the call neither
  succeeds nor empties the registry.
\<close>

theorem unload_all_models_two_entries:
  "unload_all_models (m\<lparr>loaded_models := [(''BLIP'', a), (''BLIP_Large'', b)]\<rparr>) =
     (Inl (RuntimeError ''dictionary changed size during iteration''),
      m\<lparr>loaded_models := [(''BLIP_Large'', b)]\<rparr>)"
  by (simp add: unload_all_models_def dict_del_def)

section \<open>Lookups\<close>

text \<open>
  C4, as amended. \<^verbatim>\<open>get_dependency\<close> returns the entry of a name in the dependency
  catalog and raises \<open>KeyError\<close> for any other name; \<^verbatim>\<open>get_model\<close> returns the entry of a
  name in the model catalog and returns \<open>None\<close>, without raising, for any other name.
\<close>

theorem lookup_results:
  "(\<forall>e. map_of (models m) n = Some e \<longrightarrow> get_model m n = Inr (Some e)) \<and>
   (map_of (models m) n = None \<longrightarrow> get_model m n = Inr None) \<and>
   (\<forall>e. map_of (dependencies m) n = Some e \<longrightarrow> get_dependency m n = Inr e) \<and>
   (map_of (dependencies m) n = None \<longrightarrow> get_dependency m n = Inl (KeyError n))"
  by (simp add: get_model_def get_dependency_def)

theorem lookup_results_witness:
  "get_model scenario_manager ''M'' = Inr (map_of scenario_models ''M'') \<and>
   map_of scenario_models ''M'' \<noteq> None \<and>
   get_model scenario_manager ''N'' = Inr None \<and>
   get_dependency scenario_manager ''D'' = Inr (snd (hd scenario_dependencies)) \<and>
   get_dependency scenario_manager ''N'' = Inl (KeyError ''N'')"
  using lookup_results [of scenario_manager "''M''"] lookup_results [of scenario_manager "''N''"]
    lookup_results [of scenario_manager "''D''"]
  by (simp add: scenario_manager_def scenario_models_def scenario_dependencies_def)

text \<open>The claim as stated fails for \<^verbatim>\<open>get_model\<close>: a name that is not in the catalog gives
  \<open>None\<close>, not an error.\<close>

theorem get_model_absent_returns_none:
  "map_of (models scenario_manager) ''absent'' = None \<and>
   get_model scenario_manager ''absent'' = Inr None \<and>
   get_model scenario_manager ''absent'' \<noteq> Inl (KeyError ''absent'')"
  by (simp add: get_model_def scenario_manager_def scenario_models_def)

section \<open>Construction\<close>

lemma ModelManager_scenario:
  "ModelManager scenario_env (Some ''/b'') None False True \<lparr>world = w, requests = []\<rparr> =
     (Inr scenario_manager, \<lparr>world = w, requests = []\<rparr>)"
  by (simp add: ModelManager_def load_reference_def load_local_def scenario_env_def disk_env_def
      set_authentication_def scenario_manager_def Let_def)

text \<open>Whenever both requests and the parse succeed, the dependency catalog is the bundled
  one: the body of the second response is never read.\<close>

lemma load_reference_remote:
  assumes "requests_get env (world s) remote_models = Inr b1"
    and "response_json env b1 = Inr ms"
    and "requests_get env (world s) remote_dependencies = Inr b2"
    and "load_bundled env (world s) ''db_dep.json'' = Inr ds"
  shows "fst (load_reference env True s) = Inr (ms, ds)"
  using assms by (simp add: load_reference_def Let_def)

text \<open>
  C3 (the code departs from the claim). Both remote documents are fetched and both
  fetches succeed; the model catalog is the remote one, but the dependency catalog is
  the bundled one although the remote document parses to a different catalog.
\<close>

theorem remote_dependencies_not_used:
  "(case ModelManager remote_env (Some ''/b'') None True True \<lparr>world = [], requests = []\<rparr> of
      (Inr m, s) \<Rightarrow>
        requests s = [remote_models, remote_dependencies] \<and>
        models m = remote_catalog \<and>
        dependencies m = scenario_dependencies \<and>
        response_json remote_env ''DEPENDENCIES'' = Inr remote_dependency_catalog \<and>
        remote_dependency_catalog \<noteq> scenario_dependencies
    | (Inl e, s) \<Rightarrow> False)"
  by (simp add: ModelManager_def load_reference_def remote_env_def disk_env_def
      set_authentication_def path_join_def remote_models_def remote_dependencies_def
      remote_dependency_catalog_def scenario_dependencies_def)

section \<open>Credentials checked by \<^verbatim>\<open>init\<close>\<close>

lemma check_hf_auth_complete:
  "map_of a ''username'' = Some u \<Longrightarrow> map_of a ''password'' = Some p \<Longrightarrow>
   check_hf_auth (Some a) =
     (if u = [] \<or> p = [] then Some (ValueError ''hf_auth must contain username and password'')
      else None)"
  by (simp add: check_hf_auth_def)

text \<open>
  C6 (the code departs from the claim). A manager constructed with the credentials
  \<^verbatim>\<open>{"password": "secret"}\<close>: \<^verbatim>\<open>init\<close> raises \<open>KeyError\<close>, not \<open>ValueError\<close>, because
  the first test asks for both keys to be missing.
\<close>

theorem init_password_only:
  "(case ModelManager scenario_env (Some ''/b'') (Some [(''password'', ''secret'')]) False True
           \<lparr>world = [], requests = []\<rparr> of
      (Inr m, s) \<Rightarrow> fst (init scenario_env (world s) m) = Inl (KeyError ''username'')
    | (Inl e, s) \<Rightarrow> False)"
  by (simp add: ModelManager_def load_reference_def load_local_def scenario_env_def disk_env_def
      set_authentication_def path_join_def init_def scenario_models_def scenario_dependencies_def
      file_entry_def plain_step_def get_dependency_files_def get_model_files_def entry_files_def
      check_available_def check_file_available_def check_hf_auth_def)

section \<open>Checksums\<close>

lemma md5_update_loop_append: "md5_update_loop fed rest = fed @ rest"
proof (induction fed rest rule: md5_update_loop.induct)
  case (1 fed rest)
  show ?case
  proof (cases "take 8192 rest = []")
    case True
    then have "rest = []" by simp
    then show ?thesis by (subst md5_update_loop.simps) simp
  next
    case False
    then have "md5_update_loop fed rest = md5_update_loop (fed @ take 8192 rest) (drop 8192 rest)"
      by (subst md5_update_loop.simps) (simp add: Let_def)
    also have "\<dots> = (fed @ take 8192 rest) @ drop 8192 rest"
      using "1.IH"[OF refl False] .
    finally show ?thesis by simp
  qed
qed

text \<open>
  C8. Without a declared checksum \<^verbatim>\<open>validate_file\<close> returns \<open>True\<close> and reads nothing.
  With a declared checksum \<open>h\<close> and a readable file it returns whether the digest of the
  whole content equals \<open>h\<close>: \<open>True\<close> when the digests agree, and \<open>False\<close> for a content
  changed in one byte whose digest differs from the declared one.
\<close>

theorem validate_file_checksum:
  "(md5sum fd = None \<longrightarrow> validate_file env w fd = Inr True) \<and>
   (\<forall>p content h.
      md5sum fd = Some h \<and> path fd = Some p \<and> read_bytes env w p = Inr content \<longrightarrow>
      validate_file env w fd = Inr (md5_hexdigest env content = h)) \<and>
   (\<forall>p content i b.
      md5sum fd = Some (md5_hexdigest env content) \<and> path fd = Some p \<and>
      i < length content \<and> b \<noteq> content ! i \<and>
      md5_hexdigest env (content[i := b]) \<noteq> md5_hexdigest env content \<and>
      read_bytes env w p = Inr (content[i := b]) \<longrightarrow>
      validate_file env w fd = Inr False)"
  by (auto simp add: validate_file_def md5_update_loop_append)

text \<open>The instance: \<open>m.bin\<close> holds \<open>abc123\<close> and the manifest declares its MD5 digest;
  the same file with its last byte changed to \<open>4\<close>; and an entry without a checksum.\<close>

theorem validate_file_checksum_witness:
  "md5_hexdigest scenario_env ''abc123'' = ''e99a18c428cb38d5f260853678922e03'' \<and>
   md5_hexdigest scenario_env (''abc123''[5 := CHR ''4'']) = ''b71a4cd635e0ea3e43adcc1e0c755416'' \<and>
   validate_file scenario_env [(''/b/m.bin'', ''abc123'')]
     \<lparr>path = Some ''m.bin'', md5sum = Some ''e99a18c428cb38d5f260853678922e03''\<rparr> = Inr True \<and>
   validate_file scenario_env [(''/b/m.bin'', ''abc123''[5 := CHR ''4''])]
     \<lparr>path = Some ''m.bin'', md5sum = Some ''e99a18c428cb38d5f260853678922e03''\<rparr> = Inr False \<and>
   validate_file scenario_env [] \<lparr>path = Some ''m.bin'', md5sum = None\<rparr> = Inr True"
  using
    validate_file_checksum
      [of "\<lparr>path = Some ''m.bin'', md5sum = Some ''e99a18c428cb38d5f260853678922e03''\<rparr>"
        scenario_env "[(''/b/m.bin'', ''abc123'')]"]
    validate_file_checksum
      [of "\<lparr>path = Some ''m.bin'', md5sum = Some ''e99a18c428cb38d5f260853678922e03''\<rparr>"
        scenario_env "[(''/b/m.bin'', ''abc124'')]"]
    validate_file_checksum [of "\<lparr>path = Some ''m.bin'', md5sum = None\<rparr>" scenario_env "[]"]
  by (simp add: scenario_env_def disk_env_def path_join_def md5_table_def)

end
